theory Spec2Isabelle
  imports Complex_Main "HOL-Library.Word"
begin

section \<open>Strings as byte sequences\<close>

text \<open>
  A Go string is a sequence of bytes, and so is an Isabelle \<open>string\<close>: a \<open>char\<close> is one
  byte.  The helpers below read a byte as a number and give the character classes that the
  \<open>strconv\<close> and \<open>strings\<close> packages test for.
\<close>

definition byte :: "char \<Rightarrow> nat" where
  "byte c = of_char c"

text \<open>\<open>strconv\<close>'s \<open>lower(c) = c | ('x' - 'X')\<close>: it sets bit \<open>0x20\<close> of any byte.\<close>

definition lower :: "char \<Rightarrow> char" where
  "lower c = (case c of Char b0 b1 b2 b3 b4 b5 b6 b7 \<Rightarrow> Char b0 b1 b2 b3 b4 True b6 b7)"

definition is_digit :: "char \<Rightarrow> bool" where
  "is_digit c = (byte CHR ''0'' \<le> byte c \<and> byte c \<le> byte CHR ''9'')"

definition digit_val :: "char \<Rightarrow> nat" where
  "digit_val c = byte c - byte CHR ''0''"

definition is_letter :: "char \<Rightarrow> bool" where
  "is_letter c = (byte CHR ''a'' \<le> byte (lower c) \<and> byte (lower c) \<le> byte CHR ''z'')"

definition letter_val :: "char \<Rightarrow> nat" where
  "letter_val c = byte (lower c) - byte CHR ''a'' + 10"

definition is_hex_letter :: "char \<Rightarrow> bool" where
  "is_hex_letter c = (byte CHR ''a'' \<le> byte (lower c) \<and> byte (lower c) \<le> byte CHR ''f'')"

subsection \<open>The functions of package \<open>strings\<close> that the parser calls\<close>

text \<open>\<open>strings.HasPrefix(s, prefix)\<close>: \<open>len(s) >= len(prefix) && s[:len(prefix)] == prefix\<close>.\<close>

definition HasPrefix :: "string \<Rightarrow> string \<Rightarrow> bool" where
  "HasPrefix s pre = (length pre \<le> length s \<and> take (length pre) s = pre)"

text \<open>\<open>strings.Trim(s, cutset)\<close> for a cutset of ASCII bytes: the leading and the trailing
  bytes that belong to the cutset are removed.\<close>

definition Trim :: "string \<Rightarrow> string \<Rightarrow> string" where
  "Trim s cutset =
     rev (dropWhile (\<lambda>c. c \<in> set cutset) (rev (dropWhile (\<lambda>c. c \<in> set cutset) s)))"

text \<open>\<open>strings.Replace(s, old, new, 1)\<close>: the leftmost occurrence of \<open>old\<close> is replaced and
  nothing else (an empty \<open>old\<close> matches at the very beginning).\<close>

fun Replace1 :: "string \<Rightarrow> string \<Rightarrow> string \<Rightarrow> string" where
  "Replace1 [] old new = (if old = [] then new else [])"
| "Replace1 (c # cs) old new =
     (if HasPrefix (c # cs) old then new @ drop (length old) (c # cs)
      else c # Replace1 cs old new)"

text \<open>
  \<open>utf8.DecodeRuneInString\<close>, reduced to the width it returns: the number of bytes of the
  first UTF-8 sequence of a non-empty string, and 1 for a byte that starts no well-formed
  sequence.  The byte ranges are those of the package's \<open>first\<close> and \<open>acceptRanges\<close> tables.
\<close>

definition cont_in :: "string \<Rightarrow> nat \<Rightarrow> nat \<Rightarrow> nat \<Rightarrow> bool" where
  "cont_in s i lo hi = (i < length s \<and> lo \<le> byte (s ! i) \<and> byte (s ! i) \<le> hi)"

definition rune_width :: "string \<Rightarrow> nat" where
  "rune_width s =
     (let b = byte (s ! 0) in
      if b < 0xC2 then 1
      else if b \<le> 0xDF then (if cont_in s 1 0x80 0xBF then 2 else 1)
      else if b \<le> 0xEF then
        (if cont_in s 1 (if b = 0xE0 then 0xA0 else 0x80) (if b = 0xED then 0x9F else 0xBF)
            \<and> cont_in s 2 0x80 0xBF then 3 else 1)
      else if b \<le> 0xF4 then
        (if cont_in s 1 (if b = 0xF0 then 0x90 else 0x80) (if b = 0xF4 then 0x8F else 0xBF)
            \<and> cont_in s 2 0x80 0xBF \<and> cont_in s 3 0x80 0xBF then 4 else 1)
      else 1)"

text \<open>\<open>strings.Split(s, "")\<close> is \<open>explode\<close>: one string per UTF-8 sequence.\<close>

fun explode :: "string \<Rightarrow> string list" where
  "explode [] = []"
| "explode (c # cs) =
     take (rune_width (c # cs)) (c # cs) # explode (drop (rune_width (c # cs) - 1) cs)"

text \<open>\<open>strings.Split(s, sep)\<close> for a non-empty separator: the pieces between the leftmost
  non-overlapping occurrences of \<open>sep\<close>; the empty string gives the one piece \<open>""\<close>.\<close>

fun split_sep :: "string \<Rightarrow> string \<Rightarrow> string list" where
  "split_sep [] sep = [[]]"
| "split_sep (c # cs) sep =
     (if sep \<noteq> [] \<and> HasPrefix (c # cs) sep
      then [] # split_sep (drop (length sep - 1) cs) sep
      else (case split_sep cs sep of [] \<Rightarrow> [[c]] | p # ps \<Rightarrow> (c # p) # ps))"

definition Split :: "string \<Rightarrow> string \<Rightarrow> string list" where
  "Split s sep = (if sep = [] then explode s else split_sep s sep)"

section \<open>Package \<open>strconv\<close>\<close>

text \<open>
  \<open>coerceArgument\<close> decides on the error result of three functions of Go's standard
  library.  They are modelled from the library's documented behaviour; each returns the
  pair of Go's two results, a value and an error that is \<open>None\<close> for \<open>nil\<close>.
\<close>

datatype strconv_error = ErrSyntax | ErrRange

subsection \<open>\<open>ParseBool\<close>\<close>

definition ParseBool :: "string \<Rightarrow> bool \<times> strconv_error option" where
  "ParseBool str =
     (if str \<in> set [''1'', ''t'', ''T'', ''true'', ''TRUE'', ''True''] then (True, None)
      else if str \<in> set [''0'', ''f'', ''F'', ''false'', ''FALSE'', ''False''] then (False, None)
      else (False, Some ErrSyntax))"

subsection \<open>\<open>ParseUint\<close> with an explicit base\<close>

text \<open>
  The digit loop of \<open>ParseUint(s, base, bitSize)\<close> for \<open>2 \<le> base \<le> 36\<close> (no prefix and no
  underscores are accepted then).  The accumulator is Go's \<open>uint64\<close>; the loop returns at
  the first byte that is no digit of the base, and at the first digit that takes the value
  over \<open>maxVal\<close>.
\<close>

fun ParseUint_loop ::
  "nat \<Rightarrow> 64 word \<Rightarrow> 64 word \<Rightarrow> 64 word \<Rightarrow> string \<Rightarrow> 64 word \<times> strconv_error option" where
  "ParseUint_loop base maxVal cutoff n [] = (n, None)"
| "ParseUint_loop base maxVal cutoff n (c # cs) =
     (if is_digit c \<or> is_letter c then
        (let d = (if is_digit c then digit_val c else letter_val c) in
         if base \<le> d then (0, Some ErrSyntax)
         else if cutoff \<le> n then (maxVal, Some ErrRange)
         else if n * of_nat base + of_nat d < n * of_nat base \<or> maxVal < n * of_nat base + of_nat d
           then (maxVal, Some ErrRange)
         else ParseUint_loop base maxVal cutoff (n * of_nat base + of_nat d) cs)
      else (0, Some ErrSyntax))"

definition ParseUint :: "string \<Rightarrow> nat \<Rightarrow> nat \<Rightarrow> 64 word \<times> strconv_error option" where
  "ParseUint s base bitSize =
     (if s = [] then (0, Some ErrSyntax)
      else ParseUint_loop base (push_bit bitSize 1 - 1)
             (18446744073709551615 div of_nat base + 1) 0 s)"

subsection \<open>\<open>float64\<close> values\<close>

text \<open>
  A \<open>float64\<close> is a signed zero, a finite number, an infinity or a NaN.  \<open>Finite neg m e\<close>
  stands for \<open>(-1)^neg * m * 2^e\<close>, kept in the one form where \<open>m\<close> is odd, or where
  \<open>m = 0\<close> and \<open>e = 0\<close>; so 1 is \<open>Finite False 1 0\<close> and 26 is \<open>Finite False 13 1\<close>.
\<close>

datatype float64 = Finite bool nat int | Infinity bool | NaN

fun bitlen :: "nat \<Rightarrow> nat" where
  "bitlen n = (if n = 0 then 0 else Suc (bitlen (n div 2)))"

declare bitlen.simps [simp del]

function strip_even :: "nat \<Rightarrow> int \<Rightarrow> nat \<times> int" where
  "strip_even m e =
     (if m = 0 then (m, e) else if even m then strip_even (m div 2) (e + 1) else (m, e))"
  by pat_completeness auto
termination
  by (relation "measure fst") auto

declare strip_even.simps [simp del]

text \<open>The fraction \<open>n / (d * 2^e)\<close> as a numerator and a denominator.\<close>

definition scale2 :: "nat \<Rightarrow> nat \<Rightarrow> int \<Rightarrow> nat \<times> nat" where
  "scale2 n d e = (if 0 \<le> e then (n, d * 2 ^ nat e) else (n * 2 ^ nat (- e), d))"

definition round_half_even :: "nat \<times> nat \<Rightarrow> nat" where
  "round_half_even nd =
     (let q = fst nd div snd nd; r = fst nd mod snd nd
      in if snd nd < 2 * r then q + 1 else if 2 * r = snd nd \<and> odd q then q + 1 else q)"

text \<open>
  The exponent \<open>e\<close> of the last bit of the significand of \<open>n / d\<close>, for \<open>n, d > 0\<close>: the
  one with \<open>2^52 \<le> n / (d * 2^e) < 2^53\<close>, and the least exponent \<open>-1074\<close> of a
  \<open>float64\<close> when that one is smaller.
\<close>

definition binary_exponent :: "nat \<Rightarrow> nat \<Rightarrow> int" where
  "binary_exponent n d =
     max (if fst (scale2 n d (int (bitlen n) - int (bitlen d) - 52))
               div snd (scale2 n d (int (bitlen n) - int (bitlen d) - 52)) < 2 ^ 52
          then int (bitlen n) - int (bitlen d) - 53
          else int (bitlen n) - int (bitlen d) - 52)
         (- 1074)"

text \<open>
  The \<open>float64\<close> of the significand \<open>m \<le> 2^53\<close> at the exponent \<open>e\<close>.  A value beyond the
  largest finite \<open>float64\<close> is the infinity together with \<open>ErrRange\<close>, as \<open>ParseFloat\<close>
  returns it; the value zero is no error.
\<close>

definition float64_pack :: "bool \<Rightarrow> nat \<Rightarrow> int \<Rightarrow> float64 \<times> strconv_error option" where
  "float64_pack neg m e =
     (if 971 < (if m = 2 ^ 53 then e + 1 else e) then (Infinity neg, Some ErrRange)
      else (Finite neg (fst (strip_even m e)) (if fst (strip_even m e) = 0 then 0 else snd (strip_even m e)),
            None))"

text \<open>
  The \<open>float64\<close> nearest to \<open>n / d\<close> (for \<open>d > 0\<close>), ties to the even significand: a
  significand of 53 bits, or fewer at the least exponent.
\<close>

definition float64_nearest :: "bool \<Rightarrow> nat \<Rightarrow> nat \<Rightarrow> float64 \<times> strconv_error option" where
  "float64_nearest neg n d =
     (if n = 0 then (Finite neg 0 0, None)
      else float64_pack neg (round_half_even (scale2 n d (binary_exponent n d)))
             (binary_exponent n d))"

subsection \<open>\<open>ParseFloat\<close> with bit size 64\<close>

text \<open>
  \<open>commonPrefixLenIgnoreCase\<close>: only \<open>A\<close> to \<open>Z\<close> of the input are lowered, by adding
  \<open>'a' - 'A'\<close>; that is bit \<open>0x20\<close>, which these bytes do not have, so the sum sets it.
\<close>

definition ascii_lower :: "char \<Rightarrow> char" where
  "ascii_lower c =
     (if byte CHR ''A'' \<le> byte c \<and> byte c \<le> byte CHR ''Z'' then lower c else c)"

fun commonPrefixLenIgnoreCase :: "string \<Rightarrow> string \<Rightarrow> nat" where
  "commonPrefixLenIgnoreCase (c # cs) (p # ps) =
     (if ascii_lower c = p then Suc (commonPrefixLenIgnoreCase cs ps) else 0)"
| "commonPrefixLenIgnoreCase s pre = 0"

text \<open>The infinity branch of \<open>special\<close>, entered after an optional sign of \<open>nsign\<close> bytes.\<close>

definition special_inf :: "bool \<Rightarrow> nat \<Rightarrow> string \<Rightarrow> (float64 \<times> nat) option" where
  "special_inf neg nsign s =
     (let n0 = commonPrefixLenIgnoreCase s ''infinity'';
          n = (if 3 < n0 \<and> n0 < 8 then 3 else n0)
      in if n = 3 \<or> n = 8 then Some (Infinity neg, nsign + n) else None)"

text \<open>\<open>special\<close>: the value and the number of bytes read, when the string starts with an
  infinity or a NaN.\<close>

definition special :: "string \<Rightarrow> (float64 \<times> nat) option" where
  "special s =
     (case s of
        [] \<Rightarrow> None
      | c # cs \<Rightarrow>
          if c = CHR ''+'' \<or> c = CHR ''-'' then special_inf (c = CHR ''-'') 1 cs
          else if c = CHR ''i'' \<or> c = CHR ''I'' then special_inf False 0 s
          else if c = CHR ''n'' \<or> c = CHR ''N'' then
            (if commonPrefixLenIgnoreCase s ''nan'' = 3 then Some (NaN, 3) else None)
          else None)"

text \<open>
  \<open>underscoreOK\<close>: an underscore stands only between two digits, or between a base prefix
  and a digit.  \<open>saw\<close> is the last byte's class, as in the source: \<open>^\<close> at the beginning,
  \<open>0\<close> after a digit or a base prefix, \<open>_\<close> after an underscore, \<open>!\<close> otherwise.
\<close>

fun underscoreOK_loop :: "bool \<Rightarrow> char \<Rightarrow> string \<Rightarrow> bool" where
  "underscoreOK_loop hex saw [] = (saw \<noteq> CHR ''_'')"
| "underscoreOK_loop hex saw (c # cs) =
     (if is_digit c \<or> (hex \<and> is_hex_letter c) then underscoreOK_loop hex CHR ''0'' cs
      else if c = CHR ''_'' then
        (if saw \<noteq> CHR ''0'' then False else underscoreOK_loop hex CHR ''_'' cs)
      else if saw = CHR ''_'' then False
      else underscoreOK_loop hex CHR ''!'' cs)"

definition underscoreOK :: "string \<Rightarrow> bool" where
  "underscoreOK s0 =
     (let s = (if 1 \<le> length s0 \<and> (s0 ! 0 = CHR ''-'' \<or> s0 ! 0 = CHR ''+'') then tl s0 else s0);
          pre = (2 \<le> length s \<and> s ! 0 = CHR ''0''
                 \<and> (lower (s ! 1) = CHR ''b'' \<or> lower (s ! 1) = CHR ''o'' \<or> lower (s ! 1) = CHR ''x''))
      in if pre then underscoreOK_loop (lower (s ! 1) = CHR ''x'') CHR ''0'' (drop 2 s)
         else underscoreOK_loop False CHR ''^'' s)"

text \<open>
  The mantissa loop of \<open>readFloat\<close>.  The source keeps the first 19 digits (16 in base 16)
  in a \<open>uint64\<close> with a flag for the digits it dropped, and its slow path reads the
  dropped digits again from the string; the model keeps every digit in \<open>fs_mantissa\<close>, so
  that \<open>fs_nd\<close> counts the digits of the mantissa it holds.
\<close>

record float_scan =
  fs_mantissa :: nat
  fs_nd :: nat
  fs_dp :: int
  fs_sawdot :: bool
  fs_sawdigits :: bool
  fs_underscores :: bool

fun readFloat_digits :: "bool \<Rightarrow> float_scan \<Rightarrow> string \<Rightarrow> float_scan \<times> string" where
  "readFloat_digits hex st [] = (st, [])"
| "readFloat_digits hex st (c # cs) =
     (if c = CHR ''_'' then readFloat_digits hex (st\<lparr>fs_underscores := True\<rparr>) cs
      else if c = CHR ''.'' then
        (if fs_sawdot st then (st, c # cs)
         else readFloat_digits hex (st\<lparr>fs_sawdot := True, fs_dp := int (fs_nd st)\<rparr>) cs)
      else if is_digit c then
        (if c = CHR ''0'' \<and> fs_nd st = 0
         then readFloat_digits hex (st\<lparr>fs_sawdigits := True, fs_dp := fs_dp st - 1\<rparr>) cs
         else readFloat_digits hex
                (st\<lparr>fs_sawdigits := True, fs_nd := fs_nd st + 1,
                    fs_mantissa := fs_mantissa st * (if hex then 16 else 10) + digit_val c\<rparr>) cs)
      else if hex \<and> is_hex_letter c then
        readFloat_digits hex
          (st\<lparr>fs_sawdigits := True, fs_nd := fs_nd st + 1,
              fs_mantissa := fs_mantissa st * 16 + letter_val c\<rparr>) cs
      else (st, c # cs))"

text \<open>The digits of the exponent; the exponent stops growing once it has reached 10000.\<close>

fun readFloat_exp :: "int \<Rightarrow> bool \<Rightarrow> string \<Rightarrow> int \<times> bool \<times> string" where
  "readFloat_exp e u [] = (e, u, [])"
| "readFloat_exp e u (c # cs) =
     (if c = CHR ''_'' then readFloat_exp e True cs
      else if is_digit c
        then readFloat_exp (if e < 10000 then e * 10 + int (digit_val c) else e) u cs
      else (e, u, c # cs))"

text \<open>
  \<open>readFloat\<close>: \<open>None\<close> when the source returns \<open>ok = false\<close>, else the mantissa, the
  exponent of the base (10, or 2 for a hexadecimal mantissa), the sign, whether the
  mantissa is hexadecimal, and the number of bytes read.
\<close>

definition readFloat_finish ::
  "string \<Rightarrow> bool \<Rightarrow> float_scan \<Rightarrow> int \<Rightarrow> bool \<Rightarrow> string \<Rightarrow> (nat \<times> int \<times> bool \<times> bool \<times> nat) option" where
  "readFloat_finish s neg st dp hex rest =
     (let i = length s - length rest;
          ndMant = (if hex then int (fs_nd st) * 4 else int (fs_nd st));
          ex = (if fs_mantissa st \<noteq> 0 then dp - ndMant else 0)
      in if fs_underscores st \<and> \<not> underscoreOK (take i s) then None
         else Some (fs_mantissa st, ex, neg, hex, i))"

definition readFloat :: "string \<Rightarrow> (nat \<times> int \<times> bool \<times> bool \<times> nat) option" where
  "readFloat s =
     (case s of
        [] \<Rightarrow> None
      | c0 # _ \<Rightarrow>
        (let neg = (c0 = CHR ''-'');
             s1 = (if c0 = CHR ''+'' \<or> c0 = CHR ''-'' then tl s else s);
             hex = (2 < length s1 \<and> s1 ! 0 = CHR ''0'' \<and> lower (s1 ! 1) = CHR ''x'');
             scanned = readFloat_digits hex
                \<lparr>fs_mantissa = 0, fs_nd = 0, fs_dp = 0, fs_sawdot = False,
                 fs_sawdigits = False, fs_underscores = False\<rparr>
                (if hex then drop 2 s1 else s1);
             st = fst scanned;
             dp0 = (if fs_sawdot st then fs_dp st else int (fs_nd st));
             dp = (if hex then dp0 * 4 else dp0)
         in if \<not> fs_sawdigits st then None
            else (case snd scanned of
                [] \<Rightarrow> if hex then None else readFloat_finish s neg st dp hex []
              | c # cs \<Rightarrow>
                  if lower c = (if hex then CHR ''p'' else CHR ''e'') then
                    (case cs of
                       [] \<Rightarrow> None
                     | c1 # cs1 \<Rightarrow>
                        (let esign = (if c1 = CHR ''-'' then - 1 else 1);
                             ds = (if c1 = CHR ''+'' \<or> c1 = CHR ''-'' then cs1 else cs)
                         in (case ds of
                               [] \<Rightarrow> None
                             | c2 # _ \<Rightarrow>
                                 if is_digit c2 then
                                   (case readFloat_exp 0 (fs_underscores st) ds of
                                      (e, u, rest) \<Rightarrow>
                                        readFloat_finish s neg (st\<lparr>fs_underscores := u\<rparr>)
                                          (dp + e * esign) hex rest)
                                 else None)))
                  else if hex then None
                  else readFloat_finish s neg st dp hex (c # cs))))"

text \<open>
  \<open>ParseFloat(s, 64)\<close>: the whole string must be read, and the value is the \<open>float64\<close>
  nearest to the decimal or hexadecimal number written.
\<close>

definition ParseFloat :: "string \<Rightarrow> float64 \<times> strconv_error option" where
  "ParseFloat s =
     (case special s of
        Some (f, n) \<Rightarrow> if n = length s then (f, None) else (Finite False 0 0, Some ErrSyntax)
      | None \<Rightarrow>
        (case readFloat s of
           None \<Rightarrow> (Finite False 0 0, Some ErrSyntax)
         | Some (mantissa, ex, neg, hex, n) \<Rightarrow>
             if n \<noteq> length s then (Finite False 0 0, Some ErrSyntax)
             else if 0 \<le> ex
               then float64_nearest neg (mantissa * (if hex then 2 else 10) ^ nat ex) 1
             else float64_nearest neg mantissa ((if hex then 2 else 10) ^ nat (- ex))))"

section \<open>The value coercer\<close>

text \<open>
  \<open>Arg\<close> is \<open>interface{}\<close>; the dynamic types the parser stores in it are \<open>float64\<close>,
  \<open>uint64\<close> (the result type of \<open>ParseUint\<close>), \<open>bool\<close>, \<open>string\<close> and \<open>[]Arg\<close>.
\<close>

datatype Arg = VFloat float64 | VUint "64 word" | VBool bool | VString string | VList "Arg list"

definition coerceArgument :: "string \<Rightarrow> Arg" where
  "coerceArgument val =
     (if snd (ParseFloat val) = None then VFloat (fst (ParseFloat val))
      else if HasPrefix val ''0x'' \<and> snd (ParseUint (Replace1 val ''0x'' []) 16 32) = None
        then VUint (fst (ParseUint (Replace1 val ''0x'' []) 16 32))
      else if snd (ParseBool val) = None then VBool (fst (ParseBool val))
      else VString val)"

section \<open>The parser\<close>

text \<open>
  A run-time panic of Go (an index or a slice bound out of range) is a value of type
  \<open>fault\<close>.  \<open>Parse\<close> recovers from a panic in a deferred function that stores the panic
  value in the named result \<open>err\<close>; the run-time's panic values implement \<open>error\<close>, so the
  type assertion of the deferred function succeeds.  Every indexing and slicing of the
  source is checked in the model, so that a fault is a branch of it.
\<close>

datatype fault = SliceBoundsOutOfRange | IndexOutOfRange

definition slice_from :: "'a list \<Rightarrow> nat \<Rightarrow> fault + 'a list" where
  "slice_from xs lo = (if lo \<le> length xs then Inr (drop lo xs) else Inl SliceBoundsOutOfRange)"

definition index :: "'a list \<Rightarrow> nat \<Rightarrow> fault + 'a" where
  "index xs i = (if i < length xs then Inr (xs ! i) else Inl IndexOutOfRange)"

type_synonym parsed_map = "string \<rightharpoonup> Arg"

subsection \<open>The first loop: trimming and flattening\<close>

record sanitize_state =
  escaped :: bool
  escapedArgs :: "Arg list"
  sanitized :: "string list"
  parsed :: parsed_map

text \<open>The body of the loop over \<open>args\<close> (lines 84 to 108), for the argument \<open>v\<close>.\<close>

definition sanitize_arg :: "sanitize_state \<Rightarrow> string \<Rightarrow> sanitize_state" where
  "sanitize_arg st v =
     (let val = Trim v '' '' in
      if val = ''--'' then st\<lparr>escaped := True\<rparr>
      else if escaped st then st\<lparr>escapedArgs := escapedArgs st @ [coerceArgument val]\<rparr>
      else if HasPrefix val ''--''
        then st\<lparr>sanitized := sanitized st @ Split (Replace1 val ''='' '' '') '' ''\<rparr>
      else if HasPrefix val ''-''
        then st\<lparr>parsed := foldl (\<lambda>m opt. m(opt \<mapsto> VBool True)) (parsed st)
                              (Split (Replace1 val ''-'' []) [])\<rparr>
      else st\<lparr>sanitized := sanitized st @ [v]\<rparr>)"

definition sanitize_init :: sanitize_state where
  "sanitize_init =
     \<lparr>escaped = False, escapedArgs = [], sanitized = [], parsed = [''_'' \<mapsto> VList []]\<rparr>"

definition sanitize_args :: "string list \<Rightarrow> sanitize_state" where
  "sanitize_args args = foldl sanitize_arg sanitize_init args"

subsection \<open>The second loop: flags and plain arguments\<close>

text \<open>
  Lines 127 to 139, entered with the index already advanced past the flag: the value
  string of the flag and the index the loop goes on from.
\<close>

definition flag_value :: "string list \<Rightarrow> nat \<Rightarrow> fault + (string \<times> nat)" where
  "flag_value toks i =
     (if i = length toks then Inr (''true'', i)
      else (case index toks i of
              Inl f \<Rightarrow> Inl f
            | Inr nxt \<Rightarrow> if HasPrefix nxt ''--'' then Inr (''true'', i - 1) else Inr (nxt, i)))"

text \<open>Lines 141 to 145, the \<open>--no-[flag]\<close> syntax.\<close>

definition negate_flag :: "string \<Rightarrow> string \<Rightarrow> string \<times> string" where
  "negate_flag key nxt =
     (if HasPrefix key ''no-'' \<and> nxt = ''true'' then (Replace1 key ''no-'' [], ''false'')
      else (key, nxt))"

text \<open>Lines 147 to 153: the value is stored, or joined with the value already there.\<close>

definition store_flag :: "parsed_map \<Rightarrow> string \<Rightarrow> string \<Rightarrow> parsed_map" where
  "store_flag m key nxt =
     (case m key of
        None \<Rightarrow> m(key \<mapsto> coerceArgument nxt)
      | Some v \<Rightarrow>
          if v = VBool True \<or> v = VBool False then m(key \<mapsto> coerceArgument nxt)
          else m(key \<mapsto> VList [v, coerceArgument nxt]))"

text \<open>
  The loop of lines 111 to 154 from index \<open>i\<close>, with the accumulator \<open>plain\<close> and the map:
  what the two hold when the loop ends, and the fault if an index was out of range.
\<close>

function parse_loop ::
  "string list \<Rightarrow> nat \<Rightarrow> Arg list \<Rightarrow> parsed_map \<Rightarrow> Arg list \<times> parsed_map \<times> fault option" where
  "parse_loop toks i plain m =
     (if i < length toks then
        (case index toks i of
           Inl f \<Rightarrow> (plain, m, Some f)
         | Inr current \<Rightarrow>
             if HasPrefix current ''--'' then
               (case flag_value toks (Suc i) of
                  Inl f \<Rightarrow> (plain, m, Some f)
                | Inr (nxt, j) \<Rightarrow>
                    parse_loop toks (Suc j) plain
                      (store_flag m (fst (negate_flag (Replace1 current ''--'' []) nxt))
                         (snd (negate_flag (Replace1 current ''--'' []) nxt))))
             else parse_loop toks (Suc i) (plain @ [coerceArgument current]) m)
      else (plain, m, None))"
  by pat_completeness auto
termination
  by (relation "measure (\<lambda>(toks, i, plain, m). length toks - i)")
     (auto simp: flag_value_def index_def split: if_splits)

declare parse_loop.simps [simp del]

subsection \<open>\<open>Parse\<close>\<close>

text \<open>
  \<open>Parse\<close> takes the slice \<open>args\<close>, \<open>None\<close> for \<open>nil\<close>, and reads \<open>os.Args\<close>, the first
  parameter of the model, when \<open>args\<close> is \<open>nil\<close>.  The result is the pair of the named
  results \<open>parsed\<close> (\<open>None\<close> for the \<open>nil\<close> map it holds before line 79) and \<open>err\<close> as they
  stand when the function returns, normally or after a recovered panic.
\<close>

definition Parse :: "string list \<Rightarrow> string list option \<Rightarrow> parsed_map option \<times> fault option" where
  "Parse os_Args args =
     (case (case args of None \<Rightarrow> slice_from os_Args 1 | Some a \<Rightarrow> Inr a) of
        Inl f \<Rightarrow> (None, Some f)
      | Inr a \<Rightarrow>
          (let st = sanitize_args a in
           case parse_loop (sanitized st) 0 [] (parsed st) of
             (plain, m, Some f) \<Rightarrow> (Some m, Some f)
           | (plain, m, None) \<Rightarrow> (Some (m(''_'' \<mapsto> VList (plain @ escapedArgs st))), None)))"

text \<open>\<open>ParseArgs()\<close> is \<open>Parse(nil)\<close>.\<close>

definition ParseArgs :: "string list \<Rightarrow> parsed_map option \<times> fault option" where
  "ParseArgs os_Args = Parse os_Args None"

section \<open>The helper \<open>Last\<close>\<close>


section \<open>What the specification speaks of\<close>

text \<open>
  The rational number a finite \<open>float64\<close> stands for (0 for an infinity and a NaN), to say
  how near a parsed value is to the number written.
\<close>

definition float64_rat :: "float64 \<Rightarrow> rat" where
  "float64_rat f =
     (case f of
        Finite neg m e \<Rightarrow>
          (if neg then - 1 else 1) * of_nat m * (if 0 \<le> e then 2 ^ nat e else 1 / 2 ^ nat (- e))
      | Infinity neg \<Rightarrow> 0
      | NaN \<Rightarrow> 0)"

text \<open>
  The specification's positional tokens of a normalized token list: the tokens that do
  not start with \<open>--\<close> and that no flag takes as its value.
\<close>

fun spec_positionals :: "string list \<Rightarrow> string list" where
  "spec_positionals [] = []"
| "spec_positionals [t] = (if HasPrefix t ''--'' then [] else [t])"
| "spec_positionals (t # u # ts) =
     (if HasPrefix t ''--''
      then (if HasPrefix u ''--'' then spec_positionals (u # ts) else spec_positionals ts)
      else t # spec_positionals (u # ts))"

text \<open>
  The specification's normalized tokens of one input token that is not escaped: the
  token is trimmed; a token that starts with \<open>--\<close> is split on its first \<open>=\<close> into two
  tokens, or emitted as it is when it holds none; a token that starts with a single \<open>-\<close>
  is a bundle of options and emits nothing; any other token is emitted.
\<close>

definition spec_tokenize :: "string \<Rightarrow> string list" where
  "spec_tokenize v =
     (let t = Trim v '' '' in
      if HasPrefix t ''--'' then
        (if CHR ''='' \<in> set t
         then [takeWhile (\<lambda>c. c \<noteq> CHR ''='') t, tl (dropWhile (\<lambda>c. c \<noteq> CHR ''='') t)]
         else [t])
      else if HasPrefix t ''-'' then []
      else [t])"

text \<open>The normalized tokens of an input: those of the tokens before the first one that
  trims to \<open>--\<close>.\<close>

definition spec_tokens :: "string list \<Rightarrow> string list" where
  "spec_tokens args =
     concat (map spec_tokenize (takeWhile (\<lambda>v. Trim v '' '' \<noteq> ''--'') args))"

text \<open>
  The specification's escaped values of an input: every token after the first one that
  trims to \<open>--\<close>, trimmed and coerced, a later \<open>--\<close> among them.
\<close>

definition spec_escaped :: "string list \<Rightarrow> Arg list" where
  "spec_escaped args =
     map (\<lambda>v. coerceArgument (Trim v '' ''))
       (drop 1 (dropWhile (\<lambda>v. Trim v '' '' \<noteq> ''--'') args))"

text \<open>The list the specification puts under \<open>_\<close>: the coerced positional tokens, then the
  escaped values.\<close>

definition spec_underscore :: "string list \<Rightarrow> Arg list" where
  "spec_underscore args =
     map coerceArgument (spec_positionals (spec_tokens args)) @ spec_escaped args"





section \<open>Evaluation on literals\<close>

text \<open>
  The recursive functions whose equations are guarded by a test on a number are
  evaluated on numerals only, and a literal is taken through \<open>readFloat\<close>, \<open>ParseFloat\<close>
  and \<open>coerceArgument\<close> one function at a time.
\<close>

lemma bitlen_numeral:
  "bitlen 0 = 0" "bitlen (Suc 0) = 1" "bitlen 1 = 1"
  "bitlen (numeral k) = Suc (bitlen (numeral k div 2))"
  by (subst bitlen.simps, simp)+

lemma strip_even_numeral:
  "strip_even 0 e = (0, e)" "strip_even (Suc 0) e = (Suc 0, e)" "strip_even 1 e = (1, e)"
  "strip_even (numeral k) e =
     (if even (numeral k :: nat) then strip_even (numeral k div 2) (e + 1) else (numeral k, e))"
  by (subst strip_even.simps, simp)+


lemmas char_eval = byte_def lower_def is_digit_def digit_val_def is_letter_def letter_val_def
  is_hex_letter_def ascii_lower_def

lemmas float64_eval = float64_nearest_def float64_pack_def binary_exponent_def scale2_def
  round_half_even_def bitlen_numeral strip_even_numeral

lemmas readFloat_eval = readFloat_def readFloat_finish_def underscoreOK_def Let_def char_eval

lemmas coerce_eval = coerceArgument_def HasPrefix_def ParseUint_def ParseBool_def
  ParseFloat_def special_def special_inf_def readFloat_eval word_le_nat_alt word_less_nat_alt

lemma special_digits:
  "special ''1'' = None" "special ''2'' = None" "special ''3'' = None"
  "special ''26'' = None" "special ''3.14'' = None"
  by (simp_all add: special_def)

lemma readFloat_digits_lit:
  "readFloat ''1'' = Some (1, 0, False, False, 1)"
  "readFloat ''2'' = Some (2, 0, False, False, 1)"
  "readFloat ''3'' = Some (3, 0, False, False, 1)"
  "readFloat ''26'' = Some (26, 0, False, False, 2)"
  "readFloat ''3.14'' = Some (314, - 2, False, False, 4)"
  by (simp_all add: readFloat_eval)

lemma ParseFloat_digits:
  "ParseFloat ''1'' = (Finite False 1 0, None)"
  "ParseFloat ''2'' = (Finite False 1 1, None)"
  "ParseFloat ''3'' = (Finite False 3 0, None)"
  "ParseFloat ''26'' = (Finite False 13 1, None)"
  "ParseFloat ''3.14'' = (Finite False 7070651414971679 (- 51), None)"
  by (simp_all add: ParseFloat_def special_digits readFloat_digits_lit float64_eval)

lemma coerceArgument_digits:
  "coerceArgument ''1'' = VFloat (Finite False 1 0)"
  "coerceArgument ''2'' = VFloat (Finite False 1 1)"
  "coerceArgument ''3'' = VFloat (Finite False 3 0)"
  "coerceArgument ''26'' = VFloat (Finite False 13 1)"
  "coerceArgument ''3.14'' = VFloat (Finite False 7070651414971679 (- 51))"
  by (simp_all add: coerceArgument_def ParseFloat_digits)

lemma coerceArgument_words:
  "coerceArgument ''a'' = VString ''a''"
  "coerceArgument ''b'' = VString ''b''"
  "coerceArgument ''--c'' = VString ''--c''"
  "coerceArgument ''--'' = VString ''--''"
  "coerceArgument '' a'' = VString '' a''"
  "coerceArgument ''true'' = VBool True"
  "coerceArgument ''false'' = VBool False"
  "coerceArgument ''t'' = VBool True"
  "coerceArgument ''0x1A'' = VUint 26"
  by (simp_all add: coerce_eval)

text \<open>One turn of the second loop, for each way it can go.\<close>

lemma parse_loop_end: "length toks \<le> i \<Longrightarrow> parse_loop toks i plain m = (plain, m, None)"
  by (subst parse_loop.simps) simp

lemma parse_loop_plain_step:
  "i < length toks \<Longrightarrow> \<not> HasPrefix (toks ! i) ''--'' \<Longrightarrow>
     parse_loop toks i plain m = parse_loop toks (Suc i) (plain @ [coerceArgument (toks ! i)]) m"
  by (subst parse_loop.simps) (simp add: index_def)

lemma parse_loop_flag_last:
  "Suc i = length toks \<Longrightarrow> HasPrefix (toks ! i) ''--'' \<Longrightarrow>
     parse_loop toks i plain m =
       parse_loop toks (Suc (Suc i)) plain
         (store_flag m (fst (negate_flag (Replace1 (toks ! i) ''--'' []) ''true''))
            (snd (negate_flag (Replace1 (toks ! i) ''--'' []) ''true'')))"
  by (subst parse_loop.simps) (simp add: index_def flag_value_def)

lemma parse_loop_flag_flag:
  "Suc i < length toks \<Longrightarrow> HasPrefix (toks ! i) ''--'' \<Longrightarrow> HasPrefix (toks ! Suc i) ''--'' \<Longrightarrow>
     parse_loop toks i plain m =
       parse_loop toks (Suc i) plain
         (store_flag m (fst (negate_flag (Replace1 (toks ! i) ''--'' []) ''true''))
            (snd (negate_flag (Replace1 (toks ! i) ''--'' []) ''true'')))"
  by (subst parse_loop.simps) (simp add: index_def flag_value_def)

lemma parse_loop_flag_value:
  "Suc i < length toks \<Longrightarrow> HasPrefix (toks ! i) ''--'' \<Longrightarrow> \<not> HasPrefix (toks ! Suc i) ''--'' \<Longrightarrow>
     parse_loop toks i plain m =
       parse_loop toks (Suc (Suc i)) plain
         (store_flag m (fst (negate_flag (Replace1 (toks ! i) ''--'' []) (toks ! Suc i)))
            (snd (negate_flag (Replace1 (toks ! i) ''--'' []) (toks ! Suc i))))"
  by (subst parse_loop.simps) (simp add: index_def flag_value_def)

lemmas parse_loop_eval = parse_loop_end parse_loop_plain_step parse_loop_flag_last
  parse_loop_flag_flag parse_loop_flag_value negate_flag_def store_flag_def

lemmas sanitize_eval = sanitize_args_def sanitize_init_def sanitize_arg_def Trim_def Split_def
  rune_width_def cont_in_def HasPrefix_def byte_def Let_def

lemmas Parse_lit = Parse_def sanitize_eval parse_loop_eval coerceArgument_digits
  coerceArgument_words

section \<open>Lemmas on the coercer\<close>

lemma HasPrefix_Replace1: "HasPrefix s old \<Longrightarrow> Replace1 s old new = new @ drop (length old) s"
  by (cases s) (auto simp: HasPrefix_def)

lemma HasPrefix_0x: "HasPrefix s ''0x'' \<Longrightarrow> Replace1 s ''0x'' [] = drop 2 s"
  using HasPrefix_Replace1 [of s "''0x''" "[]"] by (simp add: numeral_2_eq_2)

lemma ParseUint_loop_le:
  "ParseUint_loop base maxVal cutoff n s = (r, None) \<Longrightarrow> n \<le> maxVal \<Longrightarrow> r \<le> maxVal"
proof (induction s arbitrary: n)
  case Nil
  then show ?case by simp
next
  case (Cons c s)
  then show ?case
    by (auto simp: Let_def split: if_splits)
qed

lemma ParseUint_16_32_bound:
  assumes "snd (ParseUint s 16 32) = None"
  shows "unat (fst (ParseUint s 16 32)) < 2 ^ 32"
proof -
  obtain r where r: "ParseUint s 16 32 = (r, None)"
    using assms by (cases "ParseUint s 16 32") auto
  then have "r \<le> push_bit 32 1 - 1"
    by (auto simp: ParseUint_def split: if_splits dest!: ParseUint_loop_le)
  then have "unat r \<le> unat (push_bit 32 1 - 1 :: 64 word)"
    by (simp add: word_le_nat_alt)
  then show ?thesis using r by simp
qed

lemma coerceArgument_cases:
  "coerceArgument s =
     (if snd (ParseFloat s) = None then VFloat (fst (ParseFloat s))
      else if HasPrefix s ''0x'' \<and> snd (ParseUint (drop 2 s) 16 32) = None
        then VUint (fst (ParseUint (drop 2 s) 16 32))
      else if snd (ParseBool s) = None then VBool (fst (ParseBool s))
      else VString s)"
  by (cases "HasPrefix s ''0x''") (simp_all add: coerceArgument_def HasPrefix_0x)

text \<open>
  The float parse comes first: \<open>1\<close> is a float, not the boolean that \<open>ParseBool\<close> reads
  in it, and \<open>0x1p4\<close>, a hexadecimal float, is 16, not a base-16 integer; the infinities
  and the NaN are floats too.
\<close>

lemma special_Inf: "special ''+Inf'' = Some (Infinity False, 4)"
  by (simp add: special_def special_inf_def char_eval)

lemma readFloat_0x1p4: "readFloat ''0x1p4'' = Some (1, 4, False, True, 5)"
  by (simp add: readFloat_eval)

lemma ParseFloat_0x1p4: "ParseFloat ''0x1p4'' = (Finite False 1 4, None)"
  by (simp add: ParseFloat_def special_def readFloat_0x1p4 float64_eval)

lemma coerceArgument_float_first:
  "coerceArgument ''1'' = VFloat (Finite False 1 0) \<and> ParseBool ''1'' = (True, None)"
  by (simp add: coerceArgument_digits ParseBool_def)

lemma coerceArgument_hex_float: "coerceArgument ''0x1p4'' = VFloat (Finite False 1 4)"
  by (simp add: coerceArgument_def ParseFloat_0x1p4)

lemma coerceArgument_special:
  "coerceArgument ''+Inf'' = VFloat (Infinity False)"
  "coerceArgument ''NaN'' = VFloat NaN"
  by (simp_all add: coerceArgument_def ParseFloat_def special_Inf)
    (simp add: special_def special_inf_def char_eval)

section \<open>Lemmas on the two loops\<close>

text \<open>
  The second loop never reads out of range, and the accumulator \<open>plain\<close> ends as the
  coerced positional tokens of the specification, for any index the loop starts from.
\<close>

lemma parse_loop_plain:
  "\<exists>m'. parse_loop toks i plain m =
          (plain @ map coerceArgument (spec_positionals (drop i toks)), m', None)"
proof (induction toks i plain m rule: parse_loop.induct)
  case (1 toks i plain m)
  show ?case
  proof (cases "i < length toks")
    case False
    then show ?thesis by (simp add: parse_loop.simps)
  next
    case lt: True
    then have ix: "index toks i = Inr (toks ! i)" by (simp add: index_def)
    have dr: "drop i toks = toks ! i # drop (Suc i) toks"
      using lt by (simp add: Cons_nth_drop_Suc)
    show ?thesis
    proof (cases "HasPrefix (toks ! i) ''--''")
      case False
      then show ?thesis
        using "1.IH"(2) [OF lt ix False] lt ix dr
        by (subst parse_loop.simps) (cases "drop (Suc i) toks"; auto)
    next
      case flag: True
      show ?thesis
      proof (cases "Suc i = length toks")
        case True
        then have fv: "flag_value toks (Suc i) = Inr (''true'', Suc i)"
          by (simp add: flag_value_def)
        have "drop (Suc i) toks = []" using True by simp
        then show ?thesis
          using "1.IH"(1) [OF lt ix flag fv refl] lt ix dr flag fv
          by (subst parse_loop.simps) auto
      next
        case False
        then have lt2: "Suc i < length toks" using lt by simp
        have dr2: "drop (Suc i) toks = toks ! Suc i # drop (Suc (Suc i)) toks"
          using lt2 by (simp add: Cons_nth_drop_Suc)
        show ?thesis
        proof (cases "HasPrefix (toks ! Suc i) ''--''")
          case True
          then have fv: "flag_value toks (Suc i) = Inr (''true'', i)"
            using lt2 by (simp add: flag_value_def index_def)
          show ?thesis
            using "1.IH"(1) [OF lt ix flag fv refl] lt ix dr dr2 flag fv True
            by (subst parse_loop.simps) auto
        next
          case False
          then have fv: "flag_value toks (Suc i) = Inr (toks ! Suc i, Suc i)"
            using lt2 by (simp add: flag_value_def index_def)
          show ?thesis
            using "1.IH"(1) [OF lt ix flag fv refl] lt ix dr dr2 flag fv False
            by (subst parse_loop.simps) auto
        qed
      qed
    qed
  qed
qed

text \<open>
  The first loop: the escaped values it collects are the tokens after the first \<open>--\<close>
  that do not trim to \<open>--\<close> themselves, trimmed and coerced.
\<close>

lemma sanitize_arg_escaped:
  "escaped st \<Longrightarrow>
     escaped (sanitize_arg st v) \<and>
     escapedArgs (sanitize_arg st v) =
       escapedArgs st @ map (\<lambda>v. coerceArgument (Trim v '' ''))
                          (filter (\<lambda>v. Trim v '' '' \<noteq> ''--'') [v])"
  by (simp add: sanitize_arg_def Let_def)

lemma sanitize_args_escaped:
  "escaped st \<Longrightarrow>
     escapedArgs (foldl sanitize_arg st args) =
       escapedArgs st @ map (\<lambda>v. coerceArgument (Trim v '' ''))
                          (filter (\<lambda>v. Trim v '' '' \<noteq> ''--'') args)"
proof (induction args arbitrary: st)
  case Nil
  then show ?case by simp
next
  case (Cons v args)
  from sanitize_arg_escaped [OF Cons.prems, of v] Cons.IH [of "sanitize_arg st v"]
  show ?case by (cases "Trim v '' '' = ''--''") simp_all
qed

lemma sanitize_args_unescaped:
  "\<not> escaped st \<Longrightarrow>
     escapedArgs (foldl sanitize_arg st args) =
       escapedArgs st @ map (\<lambda>v. coerceArgument (Trim v '' ''))
         (filter (\<lambda>v. Trim v '' '' \<noteq> ''--'')
            (drop 1 (dropWhile (\<lambda>v. Trim v '' '' \<noteq> ''--'') args)))"
proof (induction args arbitrary: st)
  case Nil
  then show ?case by simp
next
  case (Cons v args)
  show ?case
  proof (cases "Trim v '' '' = ''--''")
    case True
    then have "sanitize_arg st v = st\<lparr>escaped := True\<rparr>"
      by (simp add: sanitize_arg_def)
    then show ?thesis
      using True sanitize_args_escaped [of "st\<lparr>escaped := True\<rparr>" args]
      by simp
  next
    case False
    then have "\<not> escaped (sanitize_arg st v)" "escapedArgs (sanitize_arg st v) = escapedArgs st"
      using Cons.prems by (simp_all add: sanitize_arg_def Let_def)
    then show ?thesis
      using False Cons.IH [of "sanitize_arg st v"] by simp
  qed
qed

lemma escapedArgs_sanitize_args:
  "escapedArgs (sanitize_args args) =
     map (\<lambda>v. coerceArgument (Trim v '' ''))
       (filter (\<lambda>v. Trim v '' '' \<noteq> ''--'')
          (drop 1 (dropWhile (\<lambda>v. Trim v '' '' \<noteq> ''--'') args)))"
  using sanitize_args_unescaped [of sanitize_init args]
  by (simp add: sanitize_args_def sanitize_init_def)

lemma Parse_Some:
  "\<exists>m. Parse os_Args (Some args) =
     (Some (m(''_'' \<mapsto> VList (map coerceArgument (spec_positionals (sanitized (sanitize_args args)))
                               @ escapedArgs (sanitize_args args)))), None)"
proof -
  obtain m' where
    "parse_loop (sanitized (sanitize_args args)) 0 [] (parsed (sanitize_args args)) =
       (map coerceArgument (spec_positionals (sanitized (sanitize_args args))), m', None)"
    using parse_loop_plain [of "sanitized (sanitize_args args)" 0 "[]" "parsed (sanitize_args args)"]
    by auto
  then show ?thesis
    by (auto simp: Parse_def Let_def)
qed

text \<open>The tokens of a flag that holds no space.\<close>

lemma Replace1_eq_space:
  "Replace1 s ''='' '' '' =
     (if CHR ''='' \<in> set s
      then takeWhile (\<lambda>c. c \<noteq> CHR ''='') s @ CHR '' '' # tl (dropWhile (\<lambda>c. c \<noteq> CHR ''='') s)
      else s)"
  by (induction s) (auto simp: HasPrefix_def)

lemma split_sep_space_append:
  "CHR '' '' \<notin> set a \<Longrightarrow> split_sep (a @ CHR '' '' # b) '' '' = a # split_sep b '' ''"
  by (induction a) (auto simp: HasPrefix_def)

lemma split_sep_no_space: "CHR '' '' \<notin> set a \<Longrightarrow> split_sep a '' '' = [a]"
  by (induction a) (auto simp: HasPrefix_def)

lemma flag_tokens:
  assumes "CHR '' '' \<notin> set val"
  shows "Split (Replace1 val ''='' '' '') '' '' =
     (if CHR ''='' \<in> set val
      then [takeWhile (\<lambda>c. c \<noteq> CHR ''='') val, tl (dropWhile (\<lambda>c. c \<noteq> CHR ''='') val)]
      else [val])"
proof (cases "CHR ''='' \<in> set val")
  case False
  with assms show ?thesis
    by (simp add: Split_def Replace1_eq_space split_sep_no_space)
next
  case True
  have a: "CHR '' '' \<notin> set (takeWhile (\<lambda>c. c \<noteq> CHR ''='') val)"
    using assms by (meson set_takeWhileD)
  have "set (tl (dropWhile (\<lambda>c. c \<noteq> CHR ''='') val)) \<subseteq> set val"
    by (metis list.set_sel(2) set_dropWhileD subsetI tl_Nil)
  then have b: "CHR '' '' \<notin> set (tl (dropWhile (\<lambda>c. c \<noteq> CHR ''='') val))"
    using assms by blast
  show ?thesis
    using True by (simp add: Split_def Replace1_eq_space split_sep_space_append [OF a]
        split_sep_no_space [OF b])
qed

text \<open>
  Outside escape mode, a token that, trimmed, starts with \<open>--\<close>, is not \<open>--\<close> itself and
  holds no space adds to the normalized tokens, and changes nothing else: the part before
  its first \<open>=\<close> and the part after it when it holds an \<open>=\<close>, the trimmed token alone when
  it holds none.
\<close>

lemma flag_token_split:
  assumes "\<not> escaped st" and "Trim v '' '' \<noteq> ''--''" and "HasPrefix (Trim v '' '') ''--''"
    and "CHR '' '' \<notin> set (Trim v '' '')"
  shows "sanitize_arg st v =
     st\<lparr>sanitized := sanitized st @
        (if CHR ''='' \<in> set (Trim v '' '')
         then [takeWhile (\<lambda>c. c \<noteq> CHR ''='') (Trim v '' ''),
               tl (dropWhile (\<lambda>c. c \<noteq> CHR ''='') (Trim v '' ''))]
         else [Trim v '' ''])\<rparr>"
  using assms by (simp add: sanitize_arg_def Let_def flag_tokens)

lemma flag_token_split_example:
  "sanitize_arg sanitize_init ''--key=value'' = sanitize_init\<lparr>sanitized := [''--key'', ''value'']\<rparr>
   \<and> sanitize_arg sanitize_init '' --key '' = sanitize_init\<lparr>sanitized := [''--key'']\<rparr>"
  using flag_token_split [of sanitize_init "''--key=value''"]
    flag_token_split [of sanitize_init "'' --key ''"]
  by (simp add: sanitize_init_def Trim_def HasPrefix_def)

section \<open>The claims\<close>

text \<open>
  Claim C1.  The coercer is a function of the string alone and gives a value for every
  string.  It tries \<open>ParseFloat\<close> first; then, only for a string with the prefix \<open>0x\<close>,
  \<open>ParseUint\<close> in base 16 and 32 bits on the rest, and the unsigned integer it gives
  is below \<open>2^32\<close>; then \<open>ParseBool\<close>; else it gives the string itself.  The result is
  never a list.  \<open>"0x1A"\<close> gives the unsigned integer 26, \<open>"true"\<close> the boolean true, and
  \<open>"3.14"\<close> the \<open>float64\<close> \<open>7070651414971679 * 2^-51\<close>, which is within \<open>2^-52\<close>, half a
  unit of its last place, of 3.14.
\<close>

theorem coerceArgument_priority:
  "coerceArgument s =
     (if snd (ParseFloat s) = None then VFloat (fst (ParseFloat s))
      else if HasPrefix s ''0x'' \<and> snd (ParseUint (drop 2 s) 16 32) = None
        then VUint (fst (ParseUint (drop 2 s) 16 32))
      else if snd (ParseBool s) = None then VBool (fst (ParseBool s))
      else VString s)
   \<and> (case coerceArgument s of
         VFloat f \<Rightarrow> True | VUint n \<Rightarrow> unat n < 2 ^ 32 | VBool b \<Rightarrow> True
       | VString t \<Rightarrow> t = s | VList xs \<Rightarrow> False)
   \<and> coerceArgument ''0x1A'' = VUint 26
   \<and> coerceArgument ''true'' = VBool True
   \<and> coerceArgument ''3.14'' = VFloat (Finite False 7070651414971679 (- 51))
   \<and> \<bar>float64_rat (Finite False 7070651414971679 (- 51)) - 314 / 100\<bar> \<le> 1 / 2 ^ 52"
proof -
  have b: "(case coerceArgument s of
         VFloat f \<Rightarrow> True | VUint n \<Rightarrow> unat n < 2 ^ 32 | VBool b \<Rightarrow> True
       | VString t \<Rightarrow> t = s | VList xs \<Rightarrow> False)"
    unfolding coerceArgument_cases using ParseUint_16_32_bound [of "drop 2 s"] by simp
  have f: "\<bar>float64_rat (Finite False 7070651414971679 (- 51)) - 314 / 100\<bar> \<le> 1 / 2 ^ 52"
    by (simp add: float64_rat_def)
  from coerceArgument_cases [of s] b f coerceArgument_words(6,9) coerceArgument_digits(5)
  show ?thesis by blast
qed

text \<open>
  Claim C2.  A flag's value overwrites the stored one when the key is new or holds a
  plain boolean; otherwise the entry becomes the list of the stored value and the new
  one.  So \<open>["--x=1", "--x=2", "--x=3"]\<close> gives \<open>x = [[1, 2], 3]\<close>, a list whose first
  element is a list.
\<close>

theorem repeated_flag_merge:
  "store_flag m key nxt =
     (if m key = None \<or> m key = Some (VBool True) \<or> m key = Some (VBool False)
      then m(key \<mapsto> coerceArgument nxt)
      else m(key \<mapsto> VList [the (m key), coerceArgument nxt]))
   \<and> (\<exists>r. Parse os_Args (Some [''--x=1'', ''--x=2'', ''--x=3'']) = (Some r, None)
        \<and> r ''x'' = Some (VList [VList [VFloat (Finite False 1 0), VFloat (Finite False 1 1)],
                                 VFloat (Finite False 3 0)]))"
proof -
  have a: "store_flag m key nxt =
     (if m key = None \<or> m key = Some (VBool True) \<or> m key = Some (VBool False)
      then m(key \<mapsto> coerceArgument nxt)
      else m(key \<mapsto> VList [the (m key), coerceArgument nxt]))"
    by (auto simp: store_flag_def split: option.splits)
  have b: "\<exists>r. Parse os_Args (Some [''--x=1'', ''--x=2'', ''--x=3'']) = (Some r, None)
        \<and> r ''x'' = Some (VList [VList [VFloat (Finite False 1 0), VFloat (Finite False 1 1)],
                                 VFloat (Finite False 3 0)])"
    by (simp add: Parse_lit)
  from a b show ?thesis by blast
qed

text \<open>
  Claim C3.  \<open>["a", "b", "--x", "1", "-yz", "--no-flag"]\<close> parses without error to the map
  with exactly the keys \<open>_\<close>, \<open>x\<close>, \<open>y\<close>, \<open>z\<close> and \<open>flag\<close>: \<open>_\<close> is the list of the strings
  \<open>a\<close> and \<open>b\<close>, \<open>x\<close> the \<open>float64\<close> 1 (that is \<open>1 * 2^0\<close>), \<open>y\<close> and \<open>z\<close> the boolean true,
  \<open>flag\<close> the boolean false.
\<close>

theorem Parse_example:
  "\<exists>m. Parse os_Args (Some [''a'', ''b'', ''--x'', ''1'', ''-yz'', ''--no-flag'']) = (Some m, None)
     \<and> m ''_'' = Some (VList [VString ''a'', VString ''b''])
     \<and> m ''x'' = Some (VFloat (Finite False 1 0))
     \<and> m ''y'' = Some (VBool True)
     \<and> m ''z'' = Some (VBool True)
     \<and> m ''flag'' = Some (VBool False)
     \<and> dom m = {''_'', ''x'', ''y'', ''z'', ''flag''}
     \<and> float64_rat (Finite False 1 0) = 1"
  by (simp add: Parse_lit float64_rat_def) blast

text \<open>
  Claim C4, at the input \<open>["--", "--"]\<close>.  The claim has the second \<open>--\<close> coerced and
  appended to the escaped values, so that \<open>_\<close> would be the list of the string \<open>--\<close>; the
  loop tests for \<open>--\<close> before it tests the escape flag and skips the token, and \<open>_\<close> is the
  empty list.  The example of the claim, \<open>["a", "--", "b", "--c"]\<close>, does give
  \<open>_ = ["a", "b", "--c"]\<close>.
\<close>

theorem second_escape_marker_dropped:
  "Parse os_Args (Some [''--'', ''--'']) = (Some [''_'' \<mapsto> VList []], None)
   \<and> (\<exists>m. Parse os_Args (Some [''a'', ''--'', ''b'', ''--c'']) = (Some m, None)
        \<and> m ''_'' = Some (VList [VString ''a'', VString ''b'', VString ''--c'']))"
  by (simp add: Parse_lit)

text \<open>
  Claim C5, at the input \<open>["--k=a b"]\<close>.  The claim has the token split on its first
  \<open>=\<close> into the two tokens \<open>--k\<close> and \<open>a b\<close>; the loop turns the first \<open>=\<close> into a space
  and splits at every space, which gives the three tokens \<open>--k\<close>, \<open>a\<close> and \<open>b\<close>, so that
  \<open>k\<close> is the string \<open>a\<close> and \<open>b\<close> is a positional argument.  In the same way \<open>--a b\<close>,
  which holds no \<open>=\<close>, gives two tokens.
\<close>

theorem flag_token_with_space:
  "sanitized (sanitize_args [''--k=a b'']) = [''--k'', ''a'', ''b'']
   \<and> (\<exists>m. Parse os_Args (Some [''--k=a b'']) = (Some m, None)
        \<and> m ''k'' = Some (VString ''a'') \<and> m ''_'' = Some (VList [VString ''b'']))
   \<and> sanitized (sanitize_args [''--a b'']) = [''--a'', ''b'']"
  by (simp add: Parse_lit)




text \<open>
  Claim C7, at the input \<open>[" a", "--", "--"]\<close>.  For every input list \<open>Parse\<close> returns no
  error and a map in which \<open>_\<close> is a list, and for the empty list the map is \<open>_\<close> with
  the empty list and nothing else; so far the claim holds.  The list is not always the
  coerced positionals followed by the escaped values: here the positional is the string
  \<open>a\<close> and the escaped value the string \<open>--\<close>, and \<open>Parse\<close> returns the list of the
  untrimmed string alone.
\<close>

theorem positionals_not_as_specified:
  "(\<exists>m xs. Parse os_Args (Some args) = (Some m, None) \<and> m ''_'' = Some (VList xs))
   \<and> Parse os_Args (Some []) = (Some [''_'' \<mapsto> VList []], None)
   \<and> (\<exists>m. Parse os_Args (Some ['' a'', ''--'', ''--'']) = (Some m, None)
        \<and> m ''_'' = Some (VList [VString '' a'']))
   \<and> spec_underscore ['' a'', ''--'', ''--''] = [VString ''a'', VString ''--'']"
proof -
  have a: "\<exists>m xs. Parse os_Args (Some args) = (Some m, None) \<and> m ''_'' = Some (VList xs)"
    using Parse_Some [of os_Args args] by auto
  have b: "Parse os_Args (Some []) = (Some [''_'' \<mapsto> VList []], None)"
    by (simp add: Parse_def sanitize_eval parse_loop_eval)
  have c: "\<exists>m. Parse os_Args (Some ['' a'', ''--'', ''--'']) = (Some m, None)
        \<and> m ''_'' = Some (VList [VString '' a''])"
    by (simp add: Parse_lit)
  have d: "spec_underscore ['' a'', ''--'', ''--''] = [VString ''a'', VString ''--'']"
    by (simp add: spec_underscore_def spec_tokens_def spec_tokenize_def spec_escaped_def
        Trim_def HasPrefix_def coerceArgument_words)
  from a b c d show ?thesis by blast
qed

text \<open>
  Claim C8.  Whatever \<open>os.Args\<close> and \<open>args\<close> are, \<open>Parse\<close> returns either a map that has the
  key \<open>_\<close> with a list, and no error, or an error and the \<open>nil\<close> map; it never returns a
  map together with an error.  The error is returned for \<open>Parse(nil)\<close> when \<open>os.Args\<close> is
  empty, where the slice \<open>os.Args[1:]\<close> is out of range.
\<close>

theorem Parse_fault_atomic:
  "((\<exists>m. Parse os_Args args = (Some m, None) \<and> (\<exists>xs. m ''_'' = Some (VList xs)))
     \<or> (\<exists>f. Parse os_Args args = (None, Some f)))
   \<and> (\<forall>m f. Parse os_Args args \<noteq> (Some m, Some f))
   \<and> Parse [] None = (None, Some SliceBoundsOutOfRange)"
proof -
  have c: "Parse [] None = (None, Some SliceBoundsOutOfRange)"
    by (simp add: Parse_def slice_from_def)
  have d: "(\<exists>m. Parse os_Args args = (Some m, None) \<and> (\<exists>xs. m ''_'' = Some (VList xs)))
     \<or> (\<exists>f. Parse os_Args args = (None, Some f))"
  proof (cases args)
    case (Some a)
    with Parse_Some [of os_Args a] show ?thesis by auto
  next
    case None
    show ?thesis
    proof (cases "os_Args = []")
      case True
      with None c show ?thesis by simp
    next
      case False
      then have "Parse os_Args None = Parse os_Args (Some (drop 1 os_Args))"
        by (cases os_Args) (simp_all add: Parse_def slice_from_def)
      with Parse_Some [of os_Args "drop 1 os_Args"] None show ?thesis by auto
    qed
  qed
  then have "\<forall>m f. Parse os_Args args \<noteq> (Some m, Some f)" by auto
  with c d show ?thesis by blast
qed

text \<open>
  Claim C9, at the input \<open>[" a"]\<close>.  The claim has the token trimmed, so that the result
  would be that of \<open>["a"]\<close>, with \<open>_\<close> the list of the string \<open>a\<close>; the loop classifies
  the trimmed token and then appends the untrimmed one, and \<open>_\<close> is the list of the
  string \<open>a\<close> after a space.
\<close>

theorem positional_not_trimmed:
  "(\<exists>m. Parse os_Args (Some ['' a'']) = (Some m, None) \<and> m ''_'' = Some (VList [VString '' a'']))
   \<and> (\<exists>m. Parse os_Args (Some [''a'']) = (Some m, None) \<and> m ''_'' = Some (VList [VString ''a'']))
   \<and> Parse os_Args (Some ['' a'']) \<noteq> Parse os_Args (Some [''a''])"
  by (simp add: Parse_lit) (auto dest!: map_upd_eqD1)


end
